theory Spec2Isabelle
  imports Complex_Main "HOL-Library.Log_Nat"
begin

section \<open>The simulation driver of \<open>src/pop_gen.py\<close>\<close>

text \<open>
  The class \<open>PopGen\<close> drives a population-genetics simulation: \<open>run\<close> repeats
  \<open>calc_generation\<close>, which appends the current genotype data to the history, applies
  fitness, drift, an optional bottleneck, the synthesis of the next generation and mutation.

  Python exceptions are values of the type \<open>error\<close>; a call returns \<open>Inl\<close> of the raised
  exception or \<open>Inr\<close> of its result. Python integers are \<open>int\<close>. The numbers the driver
  only hands on (growth rate, maximal drift, mutation rate) are \<open>real\<close>, the value of the
  Python number. The one float computation of the driver itself, \<open>1-bottleneck_N/next_N\<close> in
  line 81, is modelled in binary64 arithmetic, with its rounding and its exceptions. The value
  \<open>None\<close> of an attribute or an argument is \<open>None\<close> of an \<open>option\<close> type. Genotype data are values (the driver never updates one in
  place), of an arbitrary type \<open>'g\<close>.
\<close>

datatype error =
    ValueError string
  | TypeError
  | ZeroDivisionError
  | OverflowError
  | HelperError string

subsection \<open>Python floats\<close>

text \<open>
  A finite float is a pair \<open>(m, k)\<close> of integers with the value \<open>m * 2 ^ k\<close>; the floats are
  the pairs with \<open>\<bar>m\<bar> \<le> 2 ^ 53\<close>, \<open>- 1074 \<le> k\<close> and a value below \<open>2 ^ 1024\<close>.
\<close>

type_synonym double = "int \<times> int"

definition double_val :: "double \<Rightarrow> real" where
  "double_val x =
     (if 0 \<le> snd x then real_of_int (fst x * 2 ^ nat (snd x))
      else real_of_int (fst x) / 2 ^ nat (- snd x))"

text \<open>
  \<open>binary_exponent p q\<close> is the integer \<open>e\<close> with \<open>2 ^ e \<le> p / q < 2 ^ (e + 1)\<close>, for positive
  \<open>p\<close> and \<open>q\<close>: the difference of the bit lengths, or one less.
\<close>

definition binary_exponent :: "int \<Rightarrow> int \<Rightarrow> int" where
  "binary_exponent p q =
     (let d = bitlen p - bitlen q
      in if (if 0 \<le> d then q * 2 ^ nat d \<le> p else q \<le> p * 2 ^ nat (- d)) then d else d - 1)"

text \<open>The integer nearest to \<open>n / d\<close>, for \<open>0 \<le> n\<close> and \<open>0 < d\<close>; a tie goes to the even one.\<close>

definition round_half_even :: "int \<Rightarrow> int \<Rightarrow> int" where
  "round_half_even n d =
     (let f = n div d; r = n mod d
      in if 2 * r < d then f else if d < 2 * r then f + 1 else if even f then f else f + 1)"

text \<open>
  Rounding \<open>p / q\<close>, for \<open>0 \<le> p\<close> and \<open>0 < q\<close>, to 53 significant bits, to the nearest, ties
  to even. The unit in the last place is \<open>2 ^ k\<close> with \<open>k\<close> the binary exponent less 52, and
  \<open>k = - 1074\<close> throughout the subnormal range. The exponent is not bounded above here.
\<close>

definition nearest_double :: "int \<Rightarrow> int \<Rightarrow> double" where
  "nearest_double p q =
     (if p = 0 then (0, 0)
      else let k = max (binary_exponent p q) (- 1022) - 52
           in if 0 \<le> k then (round_half_even p (q * 2 ^ nat k), k)
              else (round_half_even (p * 2 ^ nat (- k)) q, k))"

text \<open>The same for \<open>n / d\<close> of any signs, \<open>d \<noteq> 0\<close>: rounding is symmetric.\<close>

definition signed_nearest :: "int \<Rightarrow> int \<Rightarrow> double" where
  "signed_nearest n d =
     (let (m, k) = nearest_double \<bar>n\<bar> \<bar>d\<bar>
      in (if (n < 0) = (d < 0) then m else - m, k))"

text \<open>A rounded value of \<open>2 ^ 1024\<close> or more is beyond the largest float.\<close>

definition overflows :: "double \<Rightarrow> bool" where
  "overflows x \<longleftrightarrow> 1024 < bitlen \<bar>fst x\<bar> + snd x"

text \<open>
  \<open>a / b\<close> on two Python integers: \<open>ZeroDivisionError\<close> for \<open>b = 0\<close>, else the correctly
  rounded quotient, or \<open>OverflowError\<close> when that is too large for a float.
\<close>

definition int_truediv :: "int \<Rightarrow> int \<Rightarrow> error + double" where
  "int_truediv a b =
     (if b = 0 then Inl ZeroDivisionError
      else let x = signed_nearest a b in if overflows x then Inl OverflowError else Inr x)"

text \<open>
  \<open>1 - x\<close> for a float \<open>x\<close>: the integer 1 becomes the float 1.0, and the exact difference is
  rounded. The difference of 1 and a float never rounds beyond the largest float, and float
  subtraction raises nothing.
\<close>

definition one_minus :: "double \<Rightarrow> double" where
  "one_minus x =
     (if 0 \<le> snd x then signed_nearest (1 - fst x * 2 ^ nat (snd x)) 1
      else signed_nearest (2 ^ nat (- snd x) - fst x) (2 ^ nat (- snd x)))"

subsection \<open>The functions the driver imports\<close>

text \<open>
  The modules \<open>calc_N\<close>, \<open>calc_next_N\<close>, \<open>adj_by_fitness\<close>, \<open>adj_by_drift\<close>,
  \<open>calc_next_genotypes_data\<close> and \<open>adj_by_mutation\<close> (imported in lines 3 to 11) are not
  part of the source at hand, so the driver is modelled over an arbitrary implementation of
  them. Drift, synthesis and mutation draw random numbers: every imported function takes the
  state \<open>'w\<close> of the world outside the \<open>PopGen\<close> object (the random generator) and returns the
  new one together with its result or the exception it raises. The order in which the driver
  calls them is the order in which it threads that state. \<open>calc_N\<close> and \<open>adj_by_fitness\<close>
  receive the last history entry, which is \<open>None\<close> when no genotype data were set.
\<close>

record ('g, 'w) helpers =
  calc_N :: "'g option \<Rightarrow> 'w \<Rightarrow> (error + int) \<times> 'w"
  calc_next_N :: "int \<Rightarrow> real \<Rightarrow> int option \<Rightarrow> 'w \<Rightarrow> (error + int) \<times> 'w"
  adj_by_fitness :: "'g option \<Rightarrow> 'w \<Rightarrow> (error + 'g) \<times> 'w"
  adj_by_drift :: "'g \<Rightarrow> real \<Rightarrow> int \<Rightarrow> int option \<Rightarrow> 'w \<Rightarrow> (error + 'g) \<times> 'w"
  calc_next_genotypes_data :: "'g \<Rightarrow> int \<Rightarrow> 'w \<Rightarrow> (error + 'g) \<times> 'w"
  adj_by_mutation :: "'g \<Rightarrow> real option \<Rightarrow> 'w \<Rightarrow> (error + 'g) \<times> 'w"

subsection \<open>The object\<close>

text \<open>The attributes of a \<open>PopGen\<close> instance; \<open>gens_genotype_data\<close> is \<open>_gens_genotype_data\<close>.\<close>

record 'g PopGen =
  growth_rate :: real
  carrying_capacity :: "int option"
  max_drift :: real
  mutation_rate :: "real option"
  genotype_data :: "'g option"
  gens_genotype_data :: "'g option list"

text \<open>\<open>__init__\<close>, lines 44 to 49.\<close>

definition PopGen_init :: "'g PopGen" where
  "PopGen_init =
     \<lparr> growth_rate = 0, carrying_capacity = None, max_drift = 0, mutation_rate = None,
       genotype_data = None, gens_genotype_data = [] \<rparr>"

subsection \<open>Sequencing calls that may raise\<close>

text \<open>
  \<open>call m k\<close> runs \<open>m\<close>; when \<open>m\<close> raises, the exception propagates with the world as \<open>m\<close>
  left it, otherwise \<open>k\<close> continues with the result.
\<close>

definition call ::
  "('w \<Rightarrow> (error + 'a) \<times> 'w) \<Rightarrow> ('a \<Rightarrow> 'w \<Rightarrow> (error + 'b) \<times> 'w) \<Rightarrow> 'w \<Rightarrow> (error + 'b) \<times> 'w"
where
  "call m k w = (case m w of (Inl e, w') \<Rightarrow> (Inl e, w') | (Inr a, w') \<Rightarrow> k a w')"

subsection \<open>\<open>calc_generation\<close>, lines 64 to 86\<close>

text \<open>
  Lines 80 to 82, the bottleneck. \<open>bottleneck_yr == i\<close> is false for \<open>None\<close>, and \<open>and\<close> does
  not evaluate its right operand then. \<open>next_N > bottleneck_N\<close> raises \<open>TypeError\<close> when
  \<open>bottleneck_N\<close> is \<open>None\<close>. \<open>bottleneck_N/next_N\<close> raises \<open>ZeroDivisionError\<close> when
  \<open>next_N\<close> is 0 and \<open>OverflowError\<close> when the quotient is too large for a float; the rate
  handed to \<open>adj_by_drift\<close> is the float \<open>1 - bottleneck_N/next_N\<close>. The result is the pair of
  \<open>curr_genotypes_data\<close> and \<open>next_N\<close> after the statement.
\<close>

definition bottleneck ::
  "('g, 'w) helpers \<Rightarrow> int \<Rightarrow> int option \<Rightarrow> int option \<Rightarrow> 'g PopGen \<Rightarrow> 'g \<Rightarrow> int
     \<Rightarrow> 'w \<Rightarrow> (error + 'g \<times> int) \<times> 'w"
where
  "bottleneck h i bottleneck_yr bottleneck_N self curr_genotypes_data next_N w =
     (if bottleneck_yr = Some i then
        (case bottleneck_N of
           None \<Rightarrow> (Inl TypeError, w)
         | Some b \<Rightarrow>
             if next_N > b then
               (case int_truediv b next_N of
                  Inl e \<Rightarrow> (Inl e, w)
                | Inr q \<Rightarrow>
                    call (adj_by_drift h curr_genotypes_data
                            (double_val (one_minus q)) b (carrying_capacity self))
                      (\<lambda>c w'. (Inr (c, b), w')) w)
             else (Inr (curr_genotypes_data, next_N), w))
      else (Inr (curr_genotypes_data, next_N), w))"

text \<open>
  Lines 72 to 85, right-hand sides: everything between the append to the history and the
  first assignment to \<open>self.genotype_data\<close>. No attribute of the object changes here.
\<close>

definition next_generation ::
  "('g, 'w) helpers \<Rightarrow> int \<Rightarrow> int option \<Rightarrow> int option \<Rightarrow> 'g PopGen \<Rightarrow> 'w \<Rightarrow> (error + 'g) \<times> 'w"
where
  "next_generation h i bottleneck_yr bottleneck_N self =
     (let curr_genotypes_data = last (gens_genotype_data self) in
      call (calc_N h curr_genotypes_data) (\<lambda>N.
      call (calc_next_N h N (growth_rate self) (carrying_capacity self)) (\<lambda>next_N.
      call (adj_by_fitness h curr_genotypes_data) (\<lambda>fit.
      call (calc_N h (Some fit)) (\<lambda>N'.
      call (adj_by_drift h fit (max_drift self) N' (carrying_capacity self)) (\<lambda>drifted.
      call (bottleneck h i bottleneck_yr bottleneck_N self drifted next_N) (\<lambda>(adjusted, next_N').
      calc_next_genotypes_data h adjusted next_N')))))))"

text \<open>
  The whole method. Line 70 appends first. Line 85 assigns \<open>self.genotype_data\<close> before line 86
  calls \<open>adj_by_mutation\<close>, so an exception of the latter leaves the unmutated next generation
  in the attribute.
\<close>

definition calc_generation ::
  "('g, 'w) helpers \<Rightarrow> int \<Rightarrow> int option \<Rightarrow> int option \<Rightarrow> 'g PopGen \<times> 'w
     \<Rightarrow> (error + unit) \<times> 'g PopGen \<times> 'w"
where
  "calc_generation h i bottleneck_yr bottleneck_N sw =
     (let self0 = fst sw;
          self1 = self0\<lparr>gens_genotype_data := gens_genotype_data self0 @ [genotype_data self0]\<rparr>
      in case next_generation h i bottleneck_yr bottleneck_N self1 (snd sw) of
           (Inl e, w) \<Rightarrow> (Inl e, self1, w)
         | (Inr g, w) \<Rightarrow>
             (let self2 = self1\<lparr>genotype_data := Some g\<rparr>
              in case adj_by_mutation h g (mutation_rate self2) w of
                   (Inl e, w') \<Rightarrow> (Inl e, self2, w')
                 | (Inr m, w') \<Rightarrow> (Inr (), self2\<lparr>genotype_data := Some m\<rparr>, w')))"

subsection \<open>\<open>run\<close>, lines 51 to 62\<close>

text \<open>The loop of lines 59 and 60 over the indices that \<open>range\<close> yields.\<close>

fun run_loop ::
  "('g, 'w) helpers \<Rightarrow> int option \<Rightarrow> int option \<Rightarrow> int list \<Rightarrow> 'g PopGen \<times> 'w
     \<Rightarrow> (error + unit) \<times> 'g PopGen \<times> 'w"
where
  "run_loop h bottleneck_yr bottleneck_N [] sw = (Inr (), sw)"
| "run_loop h bottleneck_yr bottleneck_N (i # idxs) sw =
     (case calc_generation h i bottleneck_yr bottleneck_N sw of
        (Inl e, sw') \<Rightarrow> (Inl e, sw')
      | (Inr u, sw') \<Rightarrow> run_loop h bottleneck_yr bottleneck_N idxs sw')"

text \<open>
  \<open>range(generations)\<close> is \<open>[0..generations - 1]\<close>, empty when \<open>generations \<le> 0\<close>. The
  method returns the history list.
\<close>

definition run ::
  "('g, 'w) helpers \<Rightarrow> int \<Rightarrow> int option \<Rightarrow> int option \<Rightarrow> 'g PopGen \<times> 'w
     \<Rightarrow> (error + 'g option list) \<times> 'g PopGen \<times> 'w"
where
  "run h generations bottleneck_yr bottleneck_N sw =
     (if genotype_data (fst sw) = None
      then (Inl (ValueError ''Genotype data must be provided''), sw)
      else case run_loop h bottleneck_yr bottleneck_N [0..generations - 1] sw of
             (Inl e, sw') \<Rightarrow> (Inl e, sw')
           | (Inr u, sw') \<Rightarrow> (Inr (gens_genotype_data (fst sw')), sw'))"

subsection \<open>A recording implementation of the imported functions\<close>

text \<open>
  To evaluate the driver on concrete inputs, the imported functions are instantiated by
  functions that record what they are called with. Genotype data are terms: \<open>Founders n\<close> is
  an initial population of \<open>n\<close> individuals, and each transform wraps its argument together
  with the parameters it received. The world is the list of the names of the functions called
  so far. \<open>calc_N\<close> reads the size off the term; \<open>calc_N\<close> and \<open>adj_by_fitness\<close> raise
  \<open>TypeError\<close> on \<open>None\<close>, as Python does when \<open>None\<close> is used as a mapping.
\<close>

datatype gsym =
    Founders int
  | Fit gsym
  | Drift gsym real int
  | Synth gsym int
  | Mut gsym "real option"

fun size_of :: "gsym \<Rightarrow> int" where
  "size_of (Founders n) = n"
| "size_of (Fit g) = size_of g"
| "size_of (Drift g r n) = size_of g"
| "size_of (Synth g n) = n"
| "size_of (Mut g r) = size_of g"

text \<open>
  Modelled from the spec: \<open>computeNextSize\<close>, whose source (\<open>calc_next_N\<close>) is missing:
  growth as \<open>round(currentN * (1 + growthRate))\<close>, clamped below at 0 and above at the
  carrying capacity when one is set.
\<close>

definition next_size :: "int \<Rightarrow> real \<Rightarrow> int option \<Rightarrow> int" where
  "next_size N r cap =
     (let n = max 0 (round (real_of_int N * (1 + r)))
      in case cap of None \<Rightarrow> n | Some c \<Rightarrow> min n c)"

text \<open>The recording functions; each appends its name to the world.\<close>

definition trace_helpers :: "(gsym, string list) helpers" where
  "trace_helpers =
     \<lparr> calc_N = (\<lambda>g w. case g of
                   None \<Rightarrow> (Inl TypeError, w @ [''calc_N''])
                 | Some d \<Rightarrow> (Inr (size_of d), w @ [''calc_N''])),
       calc_next_N = (\<lambda>N r cap w. (Inr (next_size N r cap), w @ [''calc_next_N''])),
       adj_by_fitness = (\<lambda>g w. case g of
                   None \<Rightarrow> (Inl TypeError, w @ [''adj_by_fitness''])
                 | Some d \<Rightarrow> (Inr (Fit d), w @ [''adj_by_fitness''])),
       adj_by_drift = (\<lambda>d r N cap w. (Inr (Drift d r N), w @ [''adj_by_drift''])),
       calc_next_genotypes_data = (\<lambda>d N w. (Inr (Synth d N), w @ [''calc_next_genotypes_data''])),
       adj_by_mutation = (\<lambda>d r w. (Inr (Mut d r), w @ [''adj_by_mutation''])) \<rparr>"

text \<open>A fresh instance whose genotype data were set to 100 founders.\<close>

definition founders :: "gsym PopGen" where
  "founders = PopGen_init\<lparr>genotype_data := Some (Founders 100)\<rparr>"

text \<open>The same population, doubling per generation under a carrying capacity of 150.\<close>

definition crowded :: "gsym PopGen" where
  "crowded = founders\<lparr>growth_rate := 1, carrying_capacity := Some 150, max_drift := 1/4\<rparr>"

text \<open>A fresh instance whose genotype data were set to a population of size 0.\<close>

definition extinct :: "gsym PopGen" where
  "extinct = PopGen_init\<lparr>genotype_data := Some (Founders 0)\<rparr>"

section \<open>Properties\<close>

subsection \<open>Auxiliary facts\<close>

text \<open>Unfolding the float operations on numerals.\<close>

lemmas float_eval =
  int_truediv_def signed_nearest_def nearest_double_def binary_exponent_def
  round_half_even_def overflows_def one_minus_def double_val_def compute_bitlen Let_def

text \<open>
  Values of the float operations, as Python prints them with \<open>as_integer_ratio\<close>:
  \<open>1/10\<close>, \<open>1/3\<close>, \<open>-7/3\<close>, \<open>1 - 10/100\<close> and \<open>1 - (-7)/3\<close>.
\<close>

lemma float_values:
  "map_sum id double_val (int_truediv 1 10) = Inr (3602879701896397 / 36028797018963968)"
  "map_sum id double_val (int_truediv 1 3) = Inr (6004799503160661 / 18014398509481984)"
  "map_sum id double_val (int_truediv (- 7) 3) = Inr (- 5254199565265579 / 2251799813685248)"
  "map_sum id (double_val \<circ> one_minus) (int_truediv 10 100) = Inr (8106479329266893 / 9007199254740992)"
  "map_sum id (double_val \<circ> one_minus) (int_truediv (- 7) 3) = Inr (7505999378950827 / 2251799813685248)"
  "int_truediv 5 0 = Inl ZeroDivisionError"
  by (simp_all add: float_eval)

text \<open>
  The ends of the range: the largest float, the first quotient that is too large, the
  smallest subnormal float, and the tie below it, which goes to 0.
\<close>

lemma float_range:
  "int_truediv (2 ^ 1024 - 2 ^ 970 - 1) 1 = Inr (2 ^ 53 - 1, 971)"
  "int_truediv (2 ^ 1024 - 2 ^ 970) 1 = Inl OverflowError"
  "int_truediv 3 (2 ^ 1076) = Inr (1, - 1074)"
  "int_truediv 1 (2 ^ 1075) = Inr (0, - 1074)"
  by (simp_all add: float_eval)

text \<open>
  A quotient of a size by a larger size is a float below 1: the division raises nothing.
\<close>

lemma bitlen_mono: "x \<le> y \<Longrightarrow> bitlen x \<le> bitlen y"
  by (simp add: bitlen_def floorlog_mono)

lemma binary_exponent_neg:
  assumes "0 < p" "p < q"
  shows "binary_exponent p q < 0"
proof -
  have d: "bitlen p - bitlen q \<le> 0"
    using assms bitlen_mono [of p q] by simp
  show ?thesis
  proof (cases "bitlen p - bitlen q = 0")
    case True
    then show ?thesis using assms by (simp add: binary_exponent_def)
  next
    case False
    with d show ?thesis by (simp add: binary_exponent_def Let_def)
  qed
qed

lemma round_half_even_le:
  assumes "0 \<le> n" "0 < d" "n < d * c"
  shows "round_half_even n d \<le> c" "0 \<le> round_half_even n d"
proof -
  have "d * (n div d) \<le> n"
    using assms(2) by (metis mult_div_mod_eq le_add_same_cancel1 pos_mod_sign)
  with assms(3) have "d * (n div d) < d * c"
    by simp
  with assms(2) have "n div d < c"
    by simp
  then show "round_half_even n d \<le> c"
    by (simp add: round_half_even_def Let_def)
  have "0 \<le> n div d"
    using assms by (simp add: pos_imp_zdiv_nonneg_iff)
  then show "0 \<le> round_half_even n d"
    by (simp add: round_half_even_def Let_def)
qed

lemma nearest_double_small:
  assumes "0 < p" "p < q"
  shows "\<not> overflows (nearest_double p q)"
proof -
  define k where "k = max (binary_exponent p q) (- 1022) - 52"
  have k: "k < 0" "- 1074 \<le> k"
    using binary_exponent_neg [OF assms] by (simp_all add: k_def)
  define m where "m = round_half_even (p * 2 ^ nat (- k)) q"
  have nd: "nearest_double p q = (m, k)"
    using assms k by (simp add: nearest_double_def k_def m_def Let_def)
  have "p * 2 ^ nat (- k) < q * 2 ^ nat (- k)"
    using assms by simp
  then have m: "m \<le> 2 ^ nat (- k)" "0 \<le> m"
    using assms round_half_even_le [of "p * 2 ^ nat (- k)" q "2 ^ nat (- k)"]
    by (simp_all add: m_def)
  have "bitlen m \<le> bitlen (1 * 2 ^ nat (- k))"
    using m(1) by (intro bitlen_mono) simp
  also have "\<dots> = bitlen 1 + int (nat (- k))"
    by (rule bitlen_pow2) simp
  also have "\<dots> = 1 - k"
    using k by (simp add: compute_bitlen)
  finally show ?thesis
    using k m(2) by (simp add: nd overflows_def)
qed

lemma truediv_of_size:
  assumes "0 \<le> b" "b < n"
  shows "\<exists>q. int_truediv b n = Inr q"
proof (cases "b = 0")
  case True
  with assms show ?thesis
    by (simp add: int_truediv_def signed_nearest_def nearest_double_def overflows_def)
next
  case False
  with assms have "\<not> overflows (nearest_double b n)"
    by (intro nearest_double_small) simp_all
  with assms show ?thesis
    by (simp add: int_truediv_def signed_nearest_def overflows_def split: prod.splits)
qed


lemma bottleneck_history:
  "bottleneck h i bottleneck_yr bottleneck_N (self\<lparr>gens_genotype_data := gs\<rparr>) c n w =
   bottleneck h i bottleneck_yr bottleneck_N self c n w"
  by (simp add: bottleneck_def split: option.splits sum.splits)

lemma call_Inr: "m w = (Inr a, w') \<Longrightarrow> call m k w = k a w'"
  by (simp add: call_def)

lemma bottleneck_other_year:
  "bottleneck_yr \<noteq> Some i \<Longrightarrow>
     bottleneck h i bottleneck_yr bottleneck_N self c n = (\<lambda>w. (Inr (c, n), w))"
  by (simp add: bottleneck_def fun_eq_iff)

lemma next_generation_other_year:
  "bottleneck_yr \<noteq> Some i \<Longrightarrow>
     next_generation h i bottleneck_yr bottleneck_N self = next_generation h i None None self"
  by (simp add: next_generation_def bottleneck_other_year)

lemma calc_generation_other_year:
  "bottleneck_yr \<noteq> Some i \<Longrightarrow>
     calc_generation h i bottleneck_yr bottleneck_N sw = calc_generation h i None None sw"
  using next_generation_other_year [of bottleneck_yr i h bottleneck_N]
  by (simp add: calc_generation_def)

lemma run_loop_other_years:
  "\<forall>i \<in> set idxs. bottleneck_yr \<noteq> Some i \<Longrightarrow>
     run_loop h bottleneck_yr bottleneck_N idxs sw = run_loop h None None idxs sw"
proof (induction idxs arbitrary: sw)
  case Nil
  show ?case by simp
next
  case (Cons i idxs)
  have "calc_generation h i bottleneck_yr bottleneck_N sw = calc_generation h i None None sw"
    using Cons.prems by (intro calc_generation_other_year) simp
  moreover have "\<And>sw'. run_loop h bottleneck_yr bottleneck_N idxs sw' = run_loop h None None idxs sw'"
    using Cons.prems by (intro Cons.IH) simp
  ultimately show ?case by (simp split: prod.splits sum.splits)
qed

lemma history_after_generation:
  "calc_generation h i bottleneck_yr bottleneck_N (self, w) = (r, self', w') \<Longrightarrow>
     gens_genotype_data self' = gens_genotype_data self @ [genotype_data self]"
  by (auto simp: calc_generation_def Let_def split: prod.splits sum.splits)

lemma calc_generation_success:
  assumes "calc_generation h i bottleneck_yr bottleneck_N (self, w) = (Inr u, self', w')"
  shows "\<exists>nxt w_synth m.
           next_generation h i bottleneck_yr bottleneck_N
             (self\<lparr>gens_genotype_data := gens_genotype_data self @ [genotype_data self]\<rparr>) w
             = (Inr nxt, w_synth) \<and>
           adj_by_mutation h nxt (mutation_rate self) w_synth = (Inr m, w') \<and>
           self' = self\<lparr>gens_genotype_data := gens_genotype_data self @ [genotype_data self],
                         genotype_data := Some m\<rparr>"
  using assms
  by (auto simp: calc_generation_def Let_def split: prod.splits sum.splits)

lemma calc_generation_ready:
  "calc_generation h i bottleneck_yr bottleneck_N (self, w) = (Inr u, self', w') \<Longrightarrow>
     genotype_data self' \<noteq> None"
  by (auto dest: calc_generation_success)

lemma run_loop_append:
  "run_loop h bottleneck_yr bottleneck_N (xs @ ys) sw =
     (case run_loop h bottleneck_yr bottleneck_N xs sw of
        (Inl e, sw') \<Rightarrow> (Inl e, sw')
      | (Inr u, sw') \<Rightarrow> run_loop h bottleneck_yr bottleneck_N ys sw')"
  by (induction xs arbitrary: sw) (auto split: prod.splits sum.splits)

lemma run_loop_history:
  "run_loop h bottleneck_yr bottleneck_N idxs (self, w) = (Inr u, self', w') \<Longrightarrow>
     \<exists>rest. gens_genotype_data self' = gens_genotype_data self @ rest \<and>
            length rest = length idxs"
proof (induction idxs arbitrary: self w)
  case Nil
  then show ?case by simp
next
  case (Cons i idxs)
  from Cons.prems obtain s1 w1 where
    step: "calc_generation h i bottleneck_yr bottleneck_N (self, w) = (Inr (), s1, w1)" and
    rest: "run_loop h bottleneck_yr bottleneck_N idxs (s1, w1) = (Inr u, self', w')"
    by (auto split: prod.splits sum.splits)
  from Cons.IH [OF rest] obtain r where
    "gens_genotype_data self' = gens_genotype_data s1 @ r" "length r = length idxs"
    by blast
  with history_after_generation [OF step] show ?case by simp
qed

lemma run_loop_ready:
  "run_loop h bottleneck_yr bottleneck_N idxs (self, w) = (Inr u, self', w') \<Longrightarrow>
     genotype_data self \<noteq> None \<Longrightarrow> genotype_data self' \<noteq> None"
proof (induction idxs arbitrary: self w)
  case Nil
  then show ?case by simp
next
  case (Cons i idxs)
  from Cons.prems(1) obtain s1 w1 where
    step: "calc_generation h i bottleneck_yr bottleneck_N (self, w) = (Inr (), s1, w1)" and
    rest: "run_loop h bottleneck_yr bottleneck_N idxs (s1, w1) = (Inr u, self', w')"
    by (auto split: prod.splits sum.splits)
  from Cons.IH [OF rest calc_generation_ready [OF step]] show ?case .
qed

lemma run_loop_snapshot:
  assumes all: "run_loop h bottleneck_yr bottleneck_N [0..g - 1] (self, w) = (Inr u, self', w')"
    and k: "0 \<le> k" "k < g"
  shows "\<exists>sk wk. run_loop h bottleneck_yr bottleneck_N [0..k - 1] (self, w) = (Inr (), sk, wk) \<and>
           gens_genotype_data self' ! (length (gens_genotype_data self) + nat k) = genotype_data sk"
proof -
  have split: "[0..g - 1] = [0..k - 1] @ k # [k + 1..g - 1]"
    using k upto_split3 [of 0 k "g - 1"] by simp
  from all obtain sk wk s1 w1 where
    pre: "run_loop h bottleneck_yr bottleneck_N [0..k - 1] (self, w) = (Inr (), sk, wk)" and
    step: "calc_generation h k bottleneck_yr bottleneck_N (sk, wk) = (Inr (), s1, w1)" and
    post: "run_loop h bottleneck_yr bottleneck_N [k + 1..g - 1] (s1, w1) = (Inr u, self', w')"
    unfolding split run_loop_append
    by (auto split: prod.splits sum.splits)
  from run_loop_history [OF pre] obtain r where
    r: "gens_genotype_data sk = gens_genotype_data self @ r" "length r = nat k"
    using k by auto
  from run_loop_history [OF post] obtain r' where
    r': "gens_genotype_data self' = gens_genotype_data s1 @ r'"
    by blast
  have "gens_genotype_data self' = (gens_genotype_data self @ r) @ genotype_data sk # r'"
    using r' history_after_generation [OF step] r by simp
  then have "gens_genotype_data self' ! (length (gens_genotype_data self) + nat k) = genotype_data sk"
    using r(2) by (metis length_append nth_append_length)
  with pre step show ?thesis by auto
qed

lemma run_loop_last_step:
  assumes all: "run_loop h bottleneck_yr bottleneck_N [0..g - 1] (self, w) = (Inr u, self', w')"
    and g: "0 < g"
  shows "\<exists>prev w_prev. run_loop h bottleneck_yr bottleneck_N [0..g - 2] (self, w) = (Inr (), prev, w_prev) \<and>
           calc_generation h (g - 1) bottleneck_yr bottleneck_N (prev, w_prev) = (Inr (), self', w')"
proof -
  have split: "[0..g - 1] = [0..g - 2] @ [g - 1]"
    using g upto_rec2 [of 0 "g - 1"] by simp
  from all show ?thesis
    unfolding split run_loop_append
    by (auto split: prod.splits sum.splits)
qed

text \<open>The recording functions never raise on an instance whose genotype data are set.\<close>

lemma run_loop_trace_total:
  "genotype_data self \<noteq> None \<Longrightarrow>
     \<exists>self' w'. run_loop trace_helpers None None idxs (self, w) = (Inr (), self', w')"
proof (induction idxs arbitrary: self w)
  case Nil
  show ?case by simp
next
  case (Cons i idxs)
  from Cons.prems obtain d where d: "genotype_data self = Some d"
    by auto
  obtain s1 w1 where step: "calc_generation trace_helpers i None None (self, w) = (Inr (), s1, w1)"
    using d
    by (simp add: calc_generation_def next_generation_def bottleneck_def call_def
          trace_helpers_def Let_def)
  from Cons.IH [OF calc_generation_ready [OF step]] step show ?case
    by simp
qed

lemma run_trace_total:
  assumes "genotype_data self \<noteq> None"
  shows "\<exists>hist self' w'. run trace_helpers g None None (self, w) = (Inr hist, self', w')"
proof -
  from run_loop_trace_total [OF assms] obtain self' w' where
    "run_loop trace_helpers None None [0..g - 1] (self, w) = (Inr (), self', w')"
    by blast
  with assms show ?thesis
    by (simp add: run_def)
qed

lemma founders_ready: "genotype_data founders \<noteq> None"
  by (simp add: founders_def)

subsection \<open>The claims\<close>

text \<open>
  C1. On an instance whose genotype data are set, \<open>calc_generation\<close> works in this order:
  it appends the current genotype data to the history; computes \<open>next_N\<close> by \<open>calc_next_N\<close>
  from the size of the current (untransformed) data; applies the fitness adjustment; applies
  the drift adjustment with \<open>max_drift\<close> and the size recomputed from the data after
  fitness; applies the bottleneck statement; synthesizes the next generation at the resulting
  target size; applies the mutation adjustment, whose result becomes the current genotype
  data. Each call receives the world the previous call left, which fixes the order.
\<close>

theorem calc_generation_order:
  assumes "genotype_data self = Some cur"
    and "calc_N h (Some cur) w = (Inr N, w_size)"
    and "calc_next_N h N (growth_rate self) (carrying_capacity self) w_size = (Inr next_N, w_target)"
    and "adj_by_fitness h (Some cur) w_target = (Inr fit, w_fit)"
    and "calc_N h (Some fit) w_fit = (Inr N', w_fitsize)"
    and "adj_by_drift h fit (max_drift self) N' (carrying_capacity self) w_fitsize = (Inr drifted, w_drift)"
    and "bottleneck h i bottleneck_yr bottleneck_N self drifted next_N w_drift = (Inr (adjusted, target), w_bott)"
    and "calc_next_genotypes_data h adjusted target w_bott = (Inr nxt, w_synth)"
    and "adj_by_mutation h nxt (mutation_rate self) w_synth = (Inr mutated, w_mut)"
  shows "calc_generation h i bottleneck_yr bottleneck_N (self, w) =
           (Inr (),
            self\<lparr>gens_genotype_data := gens_genotype_data self @ [Some cur],
                 genotype_data := Some mutated\<rparr>,
            w_mut)"
  using assms
  by (simp add: calc_generation_def next_generation_def Let_def bottleneck_history call_Inr)

theorem calc_generation_order_witness:
  "calc_generation trace_helpers 3 (Some 3) (Some 10) (founders, []) =
     (Inr (),
      founders\<lparr>gens_genotype_data := [Some (Founders 100)],
               genotype_data :=
                 Some (Mut (Synth (Drift (Drift (Fit (Founders 100)) 0 100) (8106479329266893/9007199254740992) 10) 10) None)\<rparr>,
      [''calc_N'', ''calc_next_N'', ''adj_by_fitness'', ''calc_N'', ''adj_by_drift'',
       ''adj_by_drift'', ''calc_next_genotypes_data'', ''adj_by_mutation''])"
proof -
  have q: "int_truediv 10 100 = Inr (7205759403792794, - 56)"
    by (simp add: float_eval)
  have r: "double_val (one_minus (7205759403792794, - 56)) = 8106479329266893/9007199254740992"
    by (simp add: float_eval)
  show ?thesis
    using calc_generation_order [where h = trace_helpers and self = founders and i = 3
        and bottleneck_yr = "Some 3" and bottleneck_N = "Some 10"
        and cur = "Founders 100" and w = "[]"
        and N = 100 and w_size = "[''calc_N'']"
        and next_N = 100 and w_target = "[''calc_N'', ''calc_next_N'']"
        and fit = "Fit (Founders 100)" and w_fit = "[''calc_N'', ''calc_next_N'', ''adj_by_fitness'']"
        and N' = 100 and w_fitsize = "[''calc_N'', ''calc_next_N'', ''adj_by_fitness'', ''calc_N'']"
        and drifted = "Drift (Fit (Founders 100)) 0 100"
        and w_drift = "[''calc_N'', ''calc_next_N'', ''adj_by_fitness'', ''calc_N'', ''adj_by_drift'']"
        and adjusted = "Drift (Drift (Fit (Founders 100)) 0 100) (8106479329266893/9007199254740992) 10" and target = 10
        and w_bott = "[''calc_N'', ''calc_next_N'', ''adj_by_fitness'', ''calc_N'', ''adj_by_drift'',
                      ''adj_by_drift'']"
        and nxt = "Synth (Drift (Drift (Fit (Founders 100)) 0 100) (8106479329266893/9007199254740992) 10) 10"
        and w_synth = "[''calc_N'', ''calc_next_N'', ''adj_by_fitness'', ''calc_N'', ''adj_by_drift'',
                      ''adj_by_drift'', ''calc_next_genotypes_data'']"
        and mutated = "Mut (Synth (Drift (Drift (Fit (Founders 100)) 0 100) (8106479329266893/9007199254740992) 10) 10) None"
        and w_mut = "[''calc_N'', ''calc_next_N'', ''adj_by_fitness'', ''calc_N'', ''adj_by_drift'',
                      ''adj_by_drift'', ''calc_next_genotypes_data'', ''adj_by_mutation'']"]
    by (simp add: q r trace_helpers_def founders_def PopGen_init_def next_size_def bottleneck_def
          call_def)
qed

text \<open>
  C2, as the code has it. In the generation \<open>i = bottleneck_yr\<close>, on an instance whose
  genotype data are set and with a bottleneck size \<open>b\<close>: when \<open>b < next_N\<close> and the division
  \<open>b / next_N\<close> of line 81 raises nothing, drift is applied again to the drifted data with
  the float \<open>1 - b / next_N\<close> as rate and \<open>b\<close> as population size, and the synthesizer is
  called with target size \<open>b\<close>; when \<open>b \<ge> next_N\<close>, no second drift call is made and the
  synthesizer is called with the natural \<open>next_N\<close>.
\<close>

theorem calc_generation_bottleneck:
  assumes "genotype_data self = Some cur"
    and "calc_N h (Some cur) w = (Inr N, w_size)"
    and "calc_next_N h N (growth_rate self) (carrying_capacity self) w_size = (Inr next_N, w_target)"
    and "adj_by_fitness h (Some cur) w_target = (Inr fit, w_fit)"
    and "calc_N h (Some fit) w_fit = (Inr N', w_fitsize)"
    and "adj_by_drift h fit (max_drift self) N' (carrying_capacity self) w_fitsize
           = (Inr drifted, w_drift)"
    and "b < next_N \<longrightarrow> int_truediv b next_N = Inr q"
    and "(if b < next_N
          then adj_by_drift h drifted (double_val (one_minus q)) b (carrying_capacity self) w_drift
          else (Inr drifted, w_drift)) = (Inr adjusted, w_bott)"
    and "calc_next_genotypes_data h adjusted (if b < next_N then b else next_N) w_bott
           = (Inr nxt, w_synth)"
    and "adj_by_mutation h nxt (mutation_rate self) w_synth = (Inr mutated, w_mut)"
  shows "calc_generation h i (Some i) (Some b) (self, w) =
           (Inr (),
            self\<lparr>gens_genotype_data := gens_genotype_data self @ [Some cur],
                 genotype_data := Some mutated\<rparr>,
            w_mut)"
  using assms
  by (simp add: calc_generation_def next_generation_def Let_def bottleneck_def call_Inr
           split: if_splits)

theorem calc_generation_bottleneck_witness:
  "calc_generation trace_helpers 2 (Some 2) (Some 50) (crowded, []) =
     (Inr (),
      crowded\<lparr>gens_genotype_data := [Some (Founders 100)],
              genotype_data :=
                Some (Mut (Synth (Drift (Drift (Fit (Founders 100)) (1/4) 100)
                                    (3002399751580331/4503599627370496) 50) 50) None)\<rparr>,
      [''calc_N'', ''calc_next_N'', ''adj_by_fitness'', ''calc_N'', ''adj_by_drift'',
       ''adj_by_drift'', ''calc_next_genotypes_data'', ''adj_by_mutation'']) \<and>
   calc_generation trace_helpers 2 (Some 2) (Some 150) (crowded, []) =
     (Inr (),
      crowded\<lparr>gens_genotype_data := [Some (Founders 100)],
              genotype_data :=
                Some (Mut (Synth (Drift (Fit (Founders 100)) (1/4) 100) 150) None)\<rparr>,
      [''calc_N'', ''calc_next_N'', ''adj_by_fitness'', ''calc_N'', ''adj_by_drift'',
       ''calc_next_genotypes_data'', ''adj_by_mutation''])"
proof -
  have q: "int_truediv 50 150 = Inr (6004799503160661, - 54)"
    by (simp add: float_eval)
  have r: "double_val (one_minus (6004799503160661, - 54)) = 3002399751580331/4503599627370496"
    by (simp add: float_eval)
  show ?thesis
    using calc_generation_bottleneck [where h = trace_helpers and self = crowded and i = 2
      and b = 50 and q = "(6004799503160661, - 54)" and cur = "Founders 100" and w = "[]"
      and N = 100 and w_size = "[''calc_N'']"
      and next_N = 150 and w_target = "[''calc_N'', ''calc_next_N'']"
      and fit = "Fit (Founders 100)"
      and w_fit = "[''calc_N'', ''calc_next_N'', ''adj_by_fitness'']"
      and N' = 100 and w_fitsize = "[''calc_N'', ''calc_next_N'', ''adj_by_fitness'', ''calc_N'']"
      and drifted = "Drift (Fit (Founders 100)) (1/4) 100"
      and w_drift = "[''calc_N'', ''calc_next_N'', ''adj_by_fitness'', ''calc_N'', ''adj_by_drift'']"
      and adjusted = "Drift (Drift (Fit (Founders 100)) (1/4) 100) (3002399751580331/4503599627370496) 50"
      and w_bott = "[''calc_N'', ''calc_next_N'', ''adj_by_fitness'', ''calc_N'', ''adj_by_drift'',
                    ''adj_by_drift'']"
      and nxt = "Synth (Drift (Drift (Fit (Founders 100)) (1/4) 100) (3002399751580331/4503599627370496) 50) 50"
      and w_synth = "[''calc_N'', ''calc_next_N'', ''adj_by_fitness'', ''calc_N'', ''adj_by_drift'',
                    ''adj_by_drift'', ''calc_next_genotypes_data'']"
      and mutated = "Mut (Synth (Drift (Drift (Fit (Founders 100)) (1/4) 100) (3002399751580331/4503599627370496) 50) 50) None"
      and w_mut = "[''calc_N'', ''calc_next_N'', ''adj_by_fitness'', ''calc_N'', ''adj_by_drift'',
                    ''adj_by_drift'', ''calc_next_genotypes_data'', ''adj_by_mutation'']"]
    calc_generation_bottleneck [where h = trace_helpers and self = crowded and i = 2
      and b = 150 and q = "(0, 0)" and cur = "Founders 100" and w = "[]"
      and N = 100 and w_size = "[''calc_N'']"
      and next_N = 150 and w_target = "[''calc_N'', ''calc_next_N'']"
      and fit = "Fit (Founders 100)"
      and w_fit = "[''calc_N'', ''calc_next_N'', ''adj_by_fitness'']"
      and N' = 100 and w_fitsize = "[''calc_N'', ''calc_next_N'', ''adj_by_fitness'', ''calc_N'']"
      and drifted = "Drift (Fit (Founders 100)) (1/4) 100"
      and w_drift = "[''calc_N'', ''calc_next_N'', ''adj_by_fitness'', ''calc_N'', ''adj_by_drift'']"
      and adjusted = "Drift (Fit (Founders 100)) (1/4) 100"
      and w_bott = "[''calc_N'', ''calc_next_N'', ''adj_by_fitness'', ''calc_N'', ''adj_by_drift'']"
      and nxt = "Synth (Drift (Fit (Founders 100)) (1/4) 100) 150"
      and w_synth = "[''calc_N'', ''calc_next_N'', ''adj_by_fitness'', ''calc_N'', ''adj_by_drift'',
                    ''calc_next_genotypes_data'']"
      and mutated = "Mut (Synth (Drift (Fit (Founders 100)) (1/4) 100) 150) None"
      and w_mut = "[''calc_N'', ''calc_next_N'', ''adj_by_fitness'', ''calc_N'', ''adj_by_drift'',
                    ''calc_next_genotypes_data'', ''adj_by_mutation'']"]
    by (simp add: q r trace_helpers_def crowded_def founders_def PopGen_init_def next_size_def)
qed

text \<open>
  C2 as stated fails for a negative bottleneck size. On a population of size 0 the natural
  next size is 0; with \<open>bottleneck_N = - 1 < 0\<close> line 81 divides by zero, so no second drift
  call is made and the synthesizer is not called at all. With \<open>bottleneck_N = - (10 ^ 311)\<close>
  and a next size of 100 the division raises \<open>OverflowError\<close> in the same way.
\<close>

theorem bottleneck_division_raises:
  "next_size 0 0 None = 0 \<and>
   calc_generation trace_helpers 0 (Some 0) (Some (- 1)) (extinct, []) =
     (Inl ZeroDivisionError, extinct\<lparr>gens_genotype_data := [Some (Founders 0)]\<rparr>,
      [''calc_N'', ''calc_next_N'', ''adj_by_fitness'', ''calc_N'', ''adj_by_drift'']) \<and>
   next_size 100 0 None = 100 \<and>
   calc_generation trace_helpers 0 (Some 0) (Some (- (10 ^ 311))) (founders, []) =
     (Inl OverflowError, founders\<lparr>gens_genotype_data := [Some (Founders 100)]\<rparr>,
      [''calc_N'', ''calc_next_N'', ''adj_by_fitness'', ''calc_N'', ''adj_by_drift''])"
proof -
  have "int_truediv (- (10 ^ 311)) 100 = Inl OverflowError"
    by (simp add: float_eval)
  then show ?thesis
    by (simp add: calc_generation_def next_generation_def bottleneck_def call_def int_truediv_def
          trace_helpers_def extinct_def founders_def PopGen_init_def next_size_def Let_def)
qed

text \<open>
  C3. When \<open>run(g)\<close> returns on a fresh instance whose genotype data were set (empty
  history), the history has length \<open>g\<close>, its first entry is the genotype data set before the
  call, and entry \<open>k\<close> is the current genotype data of the state reached after the generations
  \<open>0\<close> to \<open>k - 1\<close>, that is, the state entering generation \<open>k\<close>.
\<close>

theorem run_history:
  assumes "genotype_data self = Some d"
    and "gens_genotype_data self = []"
    and "0 \<le> g"
    and "run h g bottleneck_yr bottleneck_N (self, w) = (Inr hist, self', w')"
  shows "hist = gens_genotype_data self' \<and> int (length hist) = g \<and>
         (0 < g \<longrightarrow> hist ! 0 = Some d) \<and>
         (\<forall>k. 0 \<le> k \<and> k < g \<longrightarrow>
            (\<exists>sk wk. run_loop h bottleneck_yr bottleneck_N [0..k - 1] (self, w) = (Inr (), sk, wk) \<and>
                     hist ! nat k = genotype_data sk))"
proof -
  from assms(1,4) have
    loop: "run_loop h bottleneck_yr bottleneck_N [0..g - 1] (self, w) = (Inr (), self', w')" and
    hist: "hist = gens_genotype_data self'"
    by (auto simp: run_def split: prod.splits sum.splits)
  from run_loop_history [OF loop] assms(2,3) have len: "int (length hist) = g"
    by (auto simp: hist)
  have snap: "\<exists>sk wk. run_loop h bottleneck_yr bottleneck_N [0..k - 1] (self, w) = (Inr (), sk, wk) \<and>
                hist ! nat k = genotype_data sk" if "0 \<le> k" "k < g" for k
    using run_loop_snapshot [OF loop that] assms(2) by (simp add: hist)
  have "hist ! 0 = Some d" if "0 < g"
    using snap [of 0] that assms(1) by simp
  with hist len snap show ?thesis by blast
qed

theorem run_history_witness:
  "int (length (gens_genotype_data (fst (snd (run trace_helpers 2 None None (founders, [])))))) = 2 \<and>
   gens_genotype_data (fst (snd (run trace_helpers 2 None None (founders, [])))) ! 0 =
     Some (Founders 100) \<and>
   gens_genotype_data (fst (snd (run trace_helpers 2 None None (founders, [])))) ! 1 =
     genotype_data (fst (snd (run_loop trace_helpers None None [0..0] (founders, []))))"
proof -
  from run_trace_total [OF founders_ready] obtain hist self' w' where
    r: "run trace_helpers 2 None None (founders, []) = (Inr hist, self', w')"
    by blast
  have d: "genotype_data founders = Some (Founders 100)" and e: "gens_genotype_data founders = []"
    by (simp_all add: founders_def PopGen_init_def)
  have g: "(0::int) \<le> 2"
    by simp
  from run_history [OF d e g r] have
    h: "hist = gens_genotype_data self'" and l: "int (length hist) = 2" and
    z: "hist ! 0 = Some (Founders 100)" and
    s: "\<forall>k. 0 \<le> k \<and> k < 2 \<longrightarrow>
          (\<exists>sk wk. run_loop trace_helpers None None [0..k - 1] (founders, []) = (Inr (), sk, wk) \<and>
                   hist ! nat k = genotype_data sk)"
    by auto
  from s [rule_format, of 1] obtain sk wk where
    "run_loop trace_helpers None None [0..0] (founders, []) = (Inr (), sk, wk)"
    "hist ! 1 = genotype_data sk"
    by auto
  with h l z r show ?thesis
    by simp
qed

text \<open>
  C4. \<open>run\<close> on an instance without genotype data raises the \<open>ValueError\<close> of line 56 and
  changes nothing. \<open>calc_generation\<close> has no such check: on the same instance it appends
  \<open>None\<close> to the history and hands \<open>None\<close> to \<open>calc_N\<close>, so what is raised is the
  exception of \<open>calc_N\<close> (here \<open>TypeError\<close>), not the error for missing data.
\<close>

theorem calc_generation_without_guard:
  "run trace_helpers 1 None None (PopGen_init, []) =
     (Inl (ValueError ''Genotype data must be provided''), PopGen_init, []) \<and>
   calc_generation trace_helpers 0 None None (PopGen_init, []) =
     (Inl TypeError, PopGen_init\<lparr>gens_genotype_data := [None]\<rparr>, [''calc_N''])"
  by (simp add: run_def calc_generation_def next_generation_def call_def
        trace_helpers_def PopGen_init_def Let_def)

text \<open>
  For any implementation of the imported functions: without genotype data, \<open>run\<close> raises
  its own error and changes nothing, while \<open>calc_generation\<close> raises what \<open>calc_N\<close> raises
  on \<open>None\<close>, after the append.
\<close>

lemma run_without_data:
  "genotype_data self = None \<Longrightarrow>
     run h generations bottleneck_yr bottleneck_N (self, w) =
       (Inl (ValueError ''Genotype data must be provided''), self, w)"
  by (simp add: run_def)

lemma generation_without_data:
  "genotype_data self = None \<Longrightarrow> calc_N h None w = (Inl e, w') \<Longrightarrow>
     calc_generation h i bottleneck_yr bottleneck_N (self, w) =
       (Inl e, self\<lparr>gens_genotype_data := gens_genotype_data self @ [None]\<rparr>, w')"
  by (simp add: calc_generation_def next_generation_def call_def Let_def)

text \<open>
  C5, as the code has it. The result of the mutation adjustment becomes the current genotype
  data, but it is not appended to the history in that step: the history receives the data
  entering a step, at its start. So when \<open>run(g)\<close> returns, \<open>g > 0\<close>, the last history entry
  is the genotype data that entered the last generation \<open>g - 1\<close>, and the final current
  genotype data are the result of the mutation adjustment of that generation.
\<close>

theorem run_last_history_entry:
  assumes "0 < g"
    and "run h g bottleneck_yr bottleneck_N (self, w) = (Inr hist, self', w')"
  shows "\<exists>prev w_prev nxt w_synth m.
           run_loop h bottleneck_yr bottleneck_N [0..g - 2] (self, w) = (Inr (), prev, w_prev) \<and>
           calc_generation h (g - 1) bottleneck_yr bottleneck_N (prev, w_prev) = (Inr (), self', w') \<and>
           adj_by_mutation h nxt (mutation_rate prev) w_synth = (Inr m, w') \<and>
           genotype_data self' = Some m \<and>
           hist = gens_genotype_data prev @ [genotype_data prev] \<and>
           last hist = genotype_data prev"
proof -
  from assms(2) have
    loop: "run_loop h bottleneck_yr bottleneck_N [0..g - 1] (self, w) = (Inr (), self', w')" and
    hist: "hist = gens_genotype_data self'"
    by (auto simp: run_def split: prod.splits sum.splits if_splits)
  from run_loop_last_step [OF loop assms(1)] obtain prev w_prev where
    pre: "run_loop h bottleneck_yr bottleneck_N [0..g - 2] (self, w) = (Inr (), prev, w_prev)" and
    step: "calc_generation h (g - 1) bottleneck_yr bottleneck_N (prev, w_prev) = (Inr (), self', w')"
    by blast
  from calc_generation_success [OF step] obtain nxt w_synth m where
    "adj_by_mutation h nxt (mutation_rate prev) w_synth = (Inr m, w')"
    "self' = prev\<lparr>gens_genotype_data := gens_genotype_data prev @ [genotype_data prev],
                         genotype_data := Some m\<rparr>"
    by blast
  with pre step hist show ?thesis by auto
qed

theorem run_last_history_entry_witness:
  "last (gens_genotype_data (fst (snd (run trace_helpers 2 None None (founders, []))))) =
     genotype_data (fst (snd (run_loop trace_helpers None None [0..0] (founders, []))))"
proof -
  from run_trace_total [OF founders_ready] obtain hist self' w' where
    r: "run trace_helpers 2 None None (founders, []) = (Inr hist, self', w')"
    by blast
  have g: "(0::int) < 2"
    by simp
  from run_last_history_entry [OF g r] obtain prev w_prev where
    "run_loop trace_helpers None None [0..2 - 2] (founders, []) = (Inr (), prev, w_prev)"
    "calc_generation trace_helpers (2 - 1) None None (prev, w_prev) = (Inr (), self', w')"
    "last hist = genotype_data prev"
    by blast
  then show ?thesis
    using r history_after_generation [of trace_helpers "2 - 1" None None prev w_prev "Inr ()" self' w']
    by simp
qed

text \<open>
  C5 as stated fails: after \<open>run(1)\<close> on 100 founders the history is the founders alone,
  and its last entry differs from the final current genotype data.
\<close>

theorem result_not_in_history:
  "fst (run trace_helpers 1 None None (founders, [])) = Inr [Some (Founders 100)] \<and>
   genotype_data (fst (snd (run trace_helpers 1 None None (founders, [])))) =
     Some (Mut (Synth (Drift (Fit (Founders 100)) 0 100) 100) None) \<and>
   last (gens_genotype_data (fst (snd (run trace_helpers 1 None None (founders, []))))) \<noteq>
     genotype_data (fst (snd (run trace_helpers 1 None None (founders, []))))"
  by (simp add: run_def calc_generation_def next_generation_def bottleneck_def call_def
        trace_helpers_def founders_def PopGen_init_def next_size_def Let_def)

text \<open>
  C6. With \<open>bottleneck_yr = i\<close> and \<open>bottleneck_N\<close> left at \<open>None\<close>, \<open>calc_generation\<close>
  never completes: when the imported functions raise nothing, the comparison
  \<open>next_N > bottleneck_N\<close> of line 80 raises \<open>TypeError\<close> after the first drift adjustment.
\<close>

theorem year_without_size_raises:
  "fst (calc_generation h i (Some i) None sw) \<noteq> Inr () \<and>
   calc_generation trace_helpers 0 (Some 0) None (founders, []) =
     (Inl TypeError, founders\<lparr>gens_genotype_data := [Some (Founders 100)]\<rparr>,
      [''calc_N'', ''calc_next_N'', ''adj_by_fitness'', ''calc_N'', ''adj_by_drift''])"
proof -
  have "fst (calc_generation h i (Some i) None sw) \<noteq> Inr ()"
    by (auto simp: calc_generation_def next_generation_def bottleneck_def call_def Let_def
             split: prod.splits sum.splits)
  moreover have "calc_generation trace_helpers 0 (Some 0) None (founders, []) =
     (Inl TypeError, founders\<lparr>gens_genotype_data := [Some (Founders 100)]\<rparr>,
      [''calc_N'', ''calc_next_N'', ''adj_by_fitness'', ''calc_N'', ''adj_by_drift''])"
    by (simp add: calc_generation_def next_generation_def bottleneck_def call_def
          trace_helpers_def founders_def PopGen_init_def next_size_def Let_def)
  ultimately show ?thesis by simp
qed

text \<open>
  The other half of C6 holds: with \<open>bottleneck_yr\<close> left at \<open>None\<close>, a given
  \<open>bottleneck_N\<close> is never read.
\<close>

lemma size_without_year_ignored:
  "calc_generation h i None (Some b) sw = calc_generation h i None None sw"
  by (rule calc_generation_other_year) simp

text \<open>
  C7. When \<open>run(g1)\<close> returns, it returns the whole history and the genotype data are still
  set. A following \<open>run(g2)\<close> on the same instance passes the check of line 55; when its
  generations raise nothing it returns the whole history again, which has grown by \<open>g1 + g2\<close>
  entries since before the first call and starts with what the first call returned.
\<close>

theorem run_twice:
  assumes "0 \<le> g1" and "0 \<le> g2"
    and "run h g1 yr1 n1 (self, w) = (Inr hist1, self1, w1)"
    and "run_loop h yr2 n2 [0..g2 - 1] (self1, w1) = (Inr (), self2, w2)"
  shows "hist1 = gens_genotype_data self1 \<and> genotype_data self1 \<noteq> None \<and>
         run h g2 yr2 n2 (self1, w1) = (Inr (gens_genotype_data self2), self2, w2) \<and>
         genotype_data self2 \<noteq> None \<and>
         int (length (gens_genotype_data self2)) = int (length (gens_genotype_data self)) + g1 + g2 \<and>
         take (length hist1) (gens_genotype_data self2) = hist1"
proof -
  from assms(3) have
    ready: "genotype_data self \<noteq> None" and
    loop1: "run_loop h yr1 n1 [0..g1 - 1] (self, w) = (Inr (), self1, w1)" and
    hist1: "hist1 = gens_genotype_data self1"
    by (auto simp: run_def split: prod.splits sum.splits if_splits)
  have ready1: "genotype_data self1 \<noteq> None"
    by (rule run_loop_ready [OF loop1 ready])
  have ready2: "genotype_data self2 \<noteq> None"
    by (rule run_loop_ready [OF assms(4) ready1])
  have run2: "run h g2 yr2 n2 (self1, w1) = (Inr (gens_genotype_data self2), self2, w2)"
    using ready1 assms(4) by (simp add: run_def)
  from run_loop_history [OF loop1] obtain r1 where
    r1: "gens_genotype_data self1 = gens_genotype_data self @ r1" "length r1 = length [0..g1 - 1]"
    by blast
  from run_loop_history [OF assms(4)] obtain r2 where
    r2: "gens_genotype_data self2 = gens_genotype_data self1 @ r2" "length r2 = length [0..g2 - 1]"
    by blast
  have len: "int (length (gens_genotype_data self2)) = int (length (gens_genotype_data self)) + g1 + g2"
    using r1 r2 assms(1,2) by simp
  have "take (length hist1) (gens_genotype_data self2) = hist1"
    using r2(1) hist1 by simp
  with hist1 ready1 run2 ready2 len show ?thesis by simp
qed

theorem run_twice_witness:
  "int (length (gens_genotype_data (fst (snd (run trace_helpers 2 None None
      (snd (run trace_helpers 1 None None (founders, [])))))))) = 3 \<and>
   fst (run trace_helpers 2 None None (snd (run trace_helpers 1 None None (founders, [])))) =
     Inr (gens_genotype_data (fst (snd (run trace_helpers 2 None None
      (snd (run trace_helpers 1 None None (founders, [])))))))"
proof -
  from run_trace_total [OF founders_ready] obtain hist1 self1 w1 where
    r1: "run trace_helpers 1 None None (founders, []) = (Inr hist1, self1, w1)"
    by blast
  have g1: "(0::int) \<le> 1" and g2: "(0::int) \<le> 2"
    by simp_all
  have e: "gens_genotype_data founders = []"
    by (simp add: founders_def PopGen_init_def)
  have "genotype_data self1 \<noteq> None"
    using r1 run_loop_ready [of trace_helpers None None "[0..1 - 1]" founders "[]" "()" self1 w1]
    by (auto simp: run_def split: prod.splits sum.splits if_splits)
  from run_loop_trace_total [OF this] obtain self2 w2 where
    l2: "run_loop trace_helpers None None [0..2 - 1] (self1, w1) = (Inr (), self2, w2)"
    by blast
  from run_twice [OF g1 g2 r1 l2] show ?thesis
    by (simp add: r1 e)
qed

text \<open>
  C8. \<open>calc_generation\<close> appends the current genotype data to the history before anything
  else: whatever the outcome of the call, an exception of any later step included, the
  history of the resulting object is the old history followed by the genotype data the
  object had, which is \<open>None\<close> when no genotype data were set.
\<close>

theorem calc_generation_appends_first:
  "gens_genotype_data (fst (snd (calc_generation h i bottleneck_yr bottleneck_N (self, w)))) =
     gens_genotype_data self @ [genotype_data self]"
  by (cases "calc_generation h i bottleneck_yr bottleneck_N (self, w)")
     (simp add: history_after_generation)

text \<open>
  C9. When \<open>bottleneck_yr\<close> is \<open>None\<close> or lies outside \<open>0..generations - 1\<close>, the bottleneck
  statement changes nothing in any generation of the run, and \<open>run\<close> behaves exactly as
  without bottleneck arguments: same result or exception, same object, same world.
\<close>

theorem run_bottleneck_year_out_of_range:
  assumes "bottleneck_yr = None \<or> (\<exists>y. bottleneck_yr = Some y \<and> (y < 0 \<or> generations \<le> y))"
  shows "run h generations bottleneck_yr bottleneck_N sw = run h generations None None sw \<and>
         (\<forall>i \<in> {0..generations - 1}. \<forall>self c n w.
            bottleneck h i bottleneck_yr bottleneck_N self c n w = (Inr (c, n), w))"
proof -
  have out: "\<forall>i \<in> set [0..generations - 1]. bottleneck_yr \<noteq> Some i"
    using assms by auto
  have "run_loop h bottleneck_yr bottleneck_N [0..generations - 1] sw =
        run_loop h None None [0..generations - 1] sw"
    by (rule run_loop_other_years [OF out])
  then have "run h generations bottleneck_yr bottleneck_N sw = run h generations None None sw"
    by (simp add: run_def)
  moreover have "\<forall>i \<in> {0..generations - 1}. \<forall>self c n w.
            bottleneck h i bottleneck_yr bottleneck_N self c n w = (Inr (c, n), w)"
    using out by (simp add: bottleneck_other_year)
  ultimately show ?thesis by simp
qed

theorem run_bottleneck_year_out_of_range_witness:
  "(Some 5 = (None::int option) \<or> (\<exists>y. Some 5 = Some y \<and> (y < 0 \<or> (3::int) \<le> y))) \<and>
   run trace_helpers 3 (Some 5) (Some 10) (founders, []) =
   run trace_helpers 3 None None (founders, [])"
  using run_bottleneck_year_out_of_range [where bottleneck_yr = "Some 5" and generations = 3
      and h = trace_helpers and bottleneck_N = "Some 10" and sw = "(founders, [])"]
  by simp

text \<open>
  C10. On an instance whose genotype data are set, \<open>run(0)\<close> performs no generation step: it
  returns the history as it is, and the object (current genotype data, growth rate, carrying
  capacity, maximal drift, mutation rate, history) and the world are unchanged.
\<close>

theorem run_zero_generations:
  "genotype_data self \<noteq> None \<Longrightarrow>
     run h 0 bottleneck_yr bottleneck_N (self, w) = (Inr (gens_genotype_data self), self, w)"
  by (simp add: run_def)

theorem run_zero_generations_witness:
  "run trace_helpers 0 (Some 0) (Some 10) (founders, []) = (Inr [], founders, [])"
  using run_zero_generations [where self = founders and h = trace_helpers
      and bottleneck_yr = "Some 0" and bottleneck_N = "Some 10" and w = "[]"]
  by (simp add: founders_def PopGen_init_def)

end
